theory Spec2Isabelle
  imports Complex_Main
begin

section \<open>Text as the decoder sees it\<close>

text \<open>
  The decoder of \<^verbatim>\<open>response_parser.py\<close> works on Python strings. A string is modelled
  as a \<^typ>\<open>string\<close>, one \<^typ>\<open>char\<close> per code point, so the model covers the lines whose
  code points are below 256 (all of ASCII and Latin-1, which is what the fallback
  decoding of the transport produces). Python floats are modelled as exact reals and
  Python integers as unbounded integers. The character classes below are the ones
  Python applies to such code points.
\<close>

definition ord :: "char \<Rightarrow> nat" where
  "ord c = of_char c"

definition isspace :: "char \<Rightarrow> bool" where
  \<comment> \<open>\<^verbatim>\<open>str.isspace\<close>, also the class \<^verbatim>\<open>\s\<close> of \<^verbatim>\<open>re\<close> on text patterns\<close>
  "isspace c = (let n = ord c in (9 \<le> n \<and> n \<le> 13) \<or> (28 \<le> n \<and> n \<le> 32) \<or> n = 133 \<or> n = 160)"

definition is_digit :: "char \<Rightarrow> bool" where
  \<comment> \<open>the class \<^verbatim>\<open>\d\<close> of \<^verbatim>\<open>re\<close>\<close>
  "is_digit c = (let n = ord c in 48 \<le> n \<and> n \<le> 57)"

definition isdigit_char :: "char \<Rightarrow> bool" where
  \<comment> \<open>\<^verbatim>\<open>str.isdigit\<close> on one character: the superscripts 1, 2 and 3 count as digits\<close>
  "isdigit_char c = (let n = ord c in (48 \<le> n \<and> n \<le> 57) \<or> n = 178 \<or> n = 179 \<or> n = 185)"

definition is_upper_AZ :: "char \<Rightarrow> bool" where
  \<comment> \<open>the class \<^verbatim>\<open>[A-Z]\<close>\<close>
  "is_upper_AZ c = (let n = ord c in 65 \<le> n \<and> n \<le> 90)"

definition is_control :: "char \<Rightarrow> bool" where
  \<comment> \<open>the class \<^verbatim>\<open>[\x00-\x1F\x7F]\<close>\<close>
  "is_control c = (let n = ord c in n \<le> 31 \<or> n = 127)"

definition lower_char :: "char \<Rightarrow> char" where
  "lower_char c =
     (let n = ord c
      in if (65 \<le> n \<and> n \<le> 90) \<or> (192 \<le> n \<and> n \<le> 222 \<and> n \<noteq> 215) then char_of (n + 32) else c)"

definition lower :: "string \<Rightarrow> string" where
  "lower s = map lower_char s"

definition lstrip :: "string \<Rightarrow> string" where
  "lstrip s = dropWhile isspace s"

definition rstrip :: "string \<Rightarrow> string" where
  "rstrip s = rev (dropWhile isspace (rev s))"

definition strip :: "string \<Rightarrow> string" where
  "strip s = rstrip (lstrip s)"

fun startswith :: "string \<Rightarrow> string \<Rightarrow> bool" where
  "startswith s [] = True"
| "startswith [] (p # ps) = False"
| "startswith (c # cs) (p # ps) = (c = p \<and> startswith cs ps)"

fun strip_prefix :: "string \<Rightarrow> string \<Rightarrow> string option" where
  \<comment> \<open>what is left of the line after a literal of a pattern\<close>
  "strip_prefix [] s = Some s"
| "strip_prefix (p # ps) [] = None"
| "strip_prefix (p # ps) (c # cs) = (if c = p then strip_prefix ps cs else None)"

definition digit_val :: "char \<Rightarrow> nat" where
  "digit_val c = ord c - 48"

definition int_of_digits :: "string \<Rightarrow> nat" where
  \<comment> \<open>\<^verbatim>\<open>int(s)\<close> on a string of decimal digits\<close>
  "int_of_digits s = foldl (\<lambda>a c. 10 * a + digit_val c) 0 s"

section \<open>Events\<close>

datatype pyval = VStr string | VInt int | VFloat real | VBool bool | VNone

type_synonym payload = "(string \<times> pyval) list"

type_synonym event = "string \<times> payload"

section \<open>The OSD parser\<close>

datatype mode = MODE_NOW_PLAYING | MODE_MENU | MODE_CONTEXT_MENU

record osd_context =
  screen_mode :: "mode option"
  last_update_time :: real
  screen_title :: string
  cursor_line :: int
  menu_items :: "(int \<times> string) list"

record OsdParser =
  context_timeout :: real
  ctx :: osd_context
  pending_selected_line :: "int option"

definition NOW_PLAYING_CHAR :: char where "NOW_PLAYING_CHAR = CHR 0x01"
definition CONTEXT_MENU_CHAR :: char where "CONTEXT_MENU_CHAR = CHR 0x02"
definition SELECTED_ITEM_CHAR :: char where "SELECTED_ITEM_CHAR = CHR 0x04"
definition MENU_ITEM_CHAR :: char where "MENU_ITEM_CHAR = CHR 0x05"
definition PLAYING_ITEM_CHAR :: char where "PLAYING_ITEM_CHAR = CHR ''$''"
definition SPECIAL_MENU_ITEM_CHARS :: "char list" where
  "SPECIAL_MENU_ITEM_CHARS = [CHR 0x06, CHR 0x0A, CHR 0x0E]"

definition clean_osd_text :: "string \<Rightarrow> string" where
  "clean_osd_text text = strip (filter (\<lambda>c. \<not> is_control c) text)"

definition create_default_context :: osd_context where
  "create_default_context =
     \<lparr>screen_mode = None, last_update_time = 0, screen_title = [], cursor_line = - 1,
      menu_items = []\<rparr>"

definition OsdParser_init :: "real \<Rightarrow> OsdParser" where
  \<comment> \<open>\<^verbatim>\<open>OsdParser.__init__\<close>\<close>
  "OsdParser_init context_timeout_seconds =
     \<lparr>context_timeout = context_timeout_seconds, ctx = create_default_context,
      pending_selected_line = None\<rparr>"

definition reset_context_if_timed_out :: "real \<Rightarrow> OsdParser \<Rightarrow> OsdParser" where
  \<comment> \<open>the first argument is what \<^verbatim>\<open>time.time()\<close> returns\<close>
  "reset_context_if_timed_out current_time p =
     (let c = ctx p;
          c1 = (if current_time - last_update_time c > context_timeout p
                then c\<lparr>screen_mode := None\<rparr> else c)
      in p\<lparr>ctx := c1\<lparr>last_update_time := current_time\<rparr>\<rparr>)"

definition handle_title_line :: "real \<Rightarrow> OsdParser \<Rightarrow> string \<Rightarrow> event \<times> OsdParser" where
  "handle_title_line now p text =
     (let p1 = (if text \<noteq> screen_title (ctx p)
                then p\<lparr>ctx := create_default_context\<lparr>screen_title := text\<rparr>,
                       pending_selected_line := None\<rparr>
                else p);
          c2 = (ctx p1)\<lparr>last_update_time := now\<rparr>;
          m = (if lower text = ''now playing'' then MODE_NOW_PLAYING
               else if text = ''Menu'' then MODE_CONTEXT_MENU
               else MODE_MENU)
      in ((''osd_title_update'', [(''text'', VStr text)]),
          p1\<lparr>ctx := c2\<lparr>screen_mode := Some m\<rparr>\<rparr>))"

fun match_time_tail :: "string \<Rightarrow> string" where
  \<comment> \<open>the optional group \<^verbatim>\<open>(?::\d{2})?\<close>\<close>
  "match_time_tail (c # a # b # rest) =
     (if c = CHR '':'' \<and> is_digit a \<and> is_digit b then [c, a, b] else [])"
| "match_time_tail s = []"

definition match_time_at :: "string \<Rightarrow> string option" where
  \<comment> \<open>\<^verbatim>\<open>(\d{1,2}:\d{2}(?::\d{2})?)\<close> at the head of the text\<close>
  "match_time_at s =
     (case s of
        d1 # d2 # c # a # b # rest \<Rightarrow>
          if is_digit d1 \<and> is_digit d2 \<and> c = CHR '':'' \<and> is_digit a \<and> is_digit b
          then Some ([d1, d2, c, a, b] @ match_time_tail rest)
          else if is_digit d1 \<and> d2 = CHR '':'' \<and> is_digit c \<and> is_digit a
          then Some ([d1, d2, c, a] @ match_time_tail (b # rest))
          else None
      | [d1, c, a, b] \<Rightarrow>
          if is_digit d1 \<and> c = CHR '':'' \<and> is_digit a \<and> is_digit b
          then Some [d1, c, a, b] else None
      | _ \<Rightarrow> None)"

definition match_percent_at :: "string \<Rightarrow> string option" where
  \<comment> \<open>\<^verbatim>\<open>(\d{1,3})%\<close> at the head of the text; the result is the group\<close>
  "match_percent_at s =
     (case s of
        d1 # s1 \<Rightarrow>
          if \<not> is_digit d1 then None
          else (case s1 of
                  d2 # s2 \<Rightarrow>
                    if d2 = CHR ''%'' then Some [d1]
                    else if \<not> is_digit d2 then None
                    else (case s2 of
                            d3 # s3 \<Rightarrow>
                              if d3 = CHR ''%'' then Some [d1, d2]
                              else if \<not> is_digit d3 then None
                              else (case s3 of
                                      c # s4 \<Rightarrow> if c = CHR ''%'' then Some [d1, d2, d3] else None
                                    | [] \<Rightarrow> None)
                          | [] \<Rightarrow> None)
                | [] \<Rightarrow> None)
      | [] \<Rightarrow> None)"

fun re_search :: "(string \<Rightarrow> string option) \<Rightarrow> string \<Rightarrow> string option" where
  \<comment> \<open>\<^verbatim>\<open>re.search\<close>: the match at the leftmost position that has one\<close>
  "re_search m [] = m []"
| "re_search m (c # cs) = (case m (c # cs) of Some g \<Rightarrow> Some g | None \<Rightarrow> re_search m cs)"

definition handle_now_playing_line :: "int \<Rightarrow> string \<Rightarrow> event option" where
  "handle_now_playing_line line raw_text =
     (if line = 1 \<and> startswith raw_text [NOW_PLAYING_CHAR]
      then Some (''now_playing_title_update'', [(''text'', VStr (clean_osd_text (drop 1 raw_text)))])
      else if line = 2 \<and> startswith raw_text [NOW_PLAYING_CHAR]
      then Some (''now_playing_artist_update'', [(''text'', VStr (clean_osd_text (drop 1 raw_text)))])
      else if line = 3 \<and> startswith raw_text [NOW_PLAYING_CHAR]
              \<and> clean_osd_text (drop 1 raw_text) \<noteq> []
      then Some (''now_playing_samplerate_update'',
                 [(''text'', VStr (clean_osd_text (drop 1 raw_text)))])
      else if line = 4
              \<and> clean_osd_text (if startswith raw_text [NOW_PLAYING_CHAR]
                                 then drop 1 raw_text else raw_text) \<noteq> []
      then Some (''now_playing_album_update'',
                 [(''text'', VStr (clean_osd_text (if startswith raw_text [NOW_PLAYING_CHAR]
                                                   then drop 1 raw_text else raw_text)))])
      else if line = 5
      then (let text = clean_osd_text raw_text;
                time_val = (case re_search match_time_at text of
                              Some g \<Rightarrow> VStr g | None \<Rightarrow> VNone);
                percent_val = (case re_search match_percent_at text of
                                 Some g \<Rightarrow> VInt (int (int_of_digits g)) | None \<Rightarrow> VNone)
            in if time_val \<noteq> VNone \<or> percent_val \<noteq> VNone
               then Some (''play_progress_update'', [(''time'', time_val), (''percent'', percent_val)])
               else None)
      else None)"

definition handle_menu_line :: "OsdParser \<Rightarrow> int \<Rightarrow> string \<Rightarrow> event option \<times> OsdParser" where
  "handle_menu_line p line raw_text =
     (let is_selected = startswith raw_text [SELECTED_ITEM_CHAR];
          is_menu_item = (startswith raw_text [MENU_ITEM_CHAR]
                          \<or> startswith raw_text [CONTEXT_MENU_CHAR]
                          \<or> (case raw_text of [] \<Rightarrow> False
                              | c # cs \<Rightarrow> c \<in> set SPECIAL_MENU_ITEM_CHARS));
          text = clean_osd_text (drop 1 raw_text);
          p1 = (if is_selected then p\<lparr>ctx := (ctx p)\<lparr>cursor_line := line\<rparr>\<rparr> else p)
      in (if is_menu_item \<or> is_selected
          then Some (''osd_menu_item_update'',
                     [(''line'', VInt line), (''text'', VStr text), (''is_selected'', VBool is_selected)])
          else None,
          p1))"

definition handle_context_menu_line :: "int \<Rightarrow> string \<Rightarrow> event option" where
  "handle_context_menu_line line raw_text =
     (if 1 \<le> line \<and> line < 8
      then (let is_selected = (\<not> startswith raw_text [CONTEXT_MENU_CHAR]);
                text = clean_osd_text raw_text
            in if text \<noteq> []
               then Some (''osd_context_menu_item_update'',
                          [(''line'', VInt line), (''text'', VStr text),
                           (''is_selected'', VBool is_selected)])
               else None)
      else None)"

definition match_nse :: "string \<Rightarrow> (int \<times> string) option" where
  \<comment> \<open>\<^verbatim>\<open>re.match(r'^NSE(\d)(.*)$', response, re.DOTALL)\<close>: the slot and the raw text\<close>
  "match_nse response =
     (case strip_prefix ''NSE'' response of
        Some (d # raw_text) \<Rightarrow> if is_digit d then Some (int (digit_val d), raw_text) else None
      | _ \<Rightarrow> None)"

definition infer_mode :: "string \<Rightarrow> mode option" where
  \<comment> \<open>the mode detected from the first content line when no title has set one\<close>
  "infer_mode raw_text =
     (if startswith raw_text [NOW_PLAYING_CHAR] then Some MODE_NOW_PLAYING
      else if startswith raw_text [MENU_ITEM_CHAR] \<or> startswith raw_text [SELECTED_ITEM_CHAR]
      then Some MODE_MENU
      else if startswith raw_text [CONTEXT_MENU_CHAR] \<or> startswith raw_text [CHR 0x0A]
      then Some MODE_CONTEXT_MENU
      else None)"

definition parse_nse :: "real \<Rightarrow> real \<Rightarrow> OsdParser \<Rightarrow> string \<Rightarrow> event option \<times> OsdParser" where
  \<comment> \<open>\<^verbatim>\<open>OsdParser.parse\<close> from the pattern match on: \<open>t1\<close> and \<open>t2\<close> are the clock readings
      of the timeout check and of the title handler\<close>
  "parse_nse t1 t2 p response =
     (case match_nse response of
        None \<Rightarrow> (None, p)
      | Some (line, raw_text) \<Rightarrow>
          (let p1 = reset_context_if_timed_out t1 p
           in if line = 0
              then (let (ev, p2) = handle_title_line t2 p1 (clean_osd_text raw_text)
                    in (Some ev, p2))
              else if line = 8
              then (let text = clean_osd_text (dropWhile (\<lambda>c. c = PLAYING_ITEM_CHAR) raw_text)
                    in if text \<noteq> [] then (Some (''station_info_update'', [(''text'', VStr text)]), p1)
                       else (None, p1))
              else if (screen_mode (ctx p1) = Some MODE_MENU
                       \<or> screen_mode (ctx p1) = Some MODE_CONTEXT_MENU)
                      \<and> strip raw_text = []
              then (None, p1\<lparr>pending_selected_line := Some line\<rparr>)
              else (let p2 = (if screen_mode (ctx p1) = None
                              then p1\<lparr>ctx := (ctx p1)\<lparr>screen_mode := infer_mode raw_text\<rparr>\<rparr>
                              else p1)
                    in case screen_mode (ctx p2) of
                         Some MODE_NOW_PLAYING \<Rightarrow> (handle_now_playing_line line raw_text, p2)
                       | Some MODE_MENU \<Rightarrow> handle_menu_line p2 line raw_text
                       | Some MODE_CONTEXT_MENU \<Rightarrow> (handle_context_menu_line line raw_text, p2)
                       | None \<Rightarrow> (None, p2))))"

definition parse :: "real \<Rightarrow> real \<Rightarrow> OsdParser \<Rightarrow> string \<Rightarrow> event option \<times> OsdParser" where
  \<comment> \<open>\<^verbatim>\<open>OsdParser.parse\<close>: the event returned and the parser afterwards\<close>
  "parse t1 t2 p response =
     (case pending_selected_line p of
        Some line \<Rightarrow>
          if \<not> startswith response ''NSE''
          then (let text = clean_osd_text response;
                    p1 = p\<lparr>pending_selected_line := None\<rparr>;
                    event_name = (if screen_mode (ctx p1) = Some MODE_CONTEXT_MENU
                                  then ''osd_context_menu_item_update''
                                  else ''osd_menu_item_update'')
                in (Some (event_name,
                          [(''line'', VInt line), (''text'', VStr text), (''is_selected'', VBool True)]),
                    p1))
          else parse_nse t1 t2 p response
      | None \<Rightarrow> parse_nse t1 t2 p response)"

section \<open>Patterns of the sub-parsers\<close>

text \<open>
  Each regular expression of the source is a small matching function that returns the
  captured group, or \<open>None\<close> where \<^verbatim>\<open>re.match\<close> finds no match.
\<close>

definition at_end :: "string \<Rightarrow> bool" where
  \<comment> \<open>\<^verbatim>\<open>$\<close>: the end of the string, or just before a newline that ends it\<close>
  "at_end r = (r = [] \<or> r = [CHR 0x0A])"

definition opt_space :: "string \<Rightarrow> string" where
  \<comment> \<open>\<^verbatim>\<open>\s?\<close> in front of a group that cannot begin with whitespace\<close>
  "opt_space r = (case r of [] \<Rightarrow> [] | c # cs \<Rightarrow> if isspace c then cs else c # cs)"

definition one_space :: "string \<Rightarrow> string option" where
  \<comment> \<open>\<^verbatim>\<open>\s\<close>\<close>
  "one_space r = (case r of [] \<Rightarrow> None | c # cs \<Rightarrow> if isspace c then Some cs else None)"

definition match_digits_end :: "string \<Rightarrow> string option" where
  \<comment> \<open>\<^verbatim>\<open>(\d+)$\<close>\<close>
  "match_digits_end r =
     (if takeWhile is_digit r \<noteq> [] \<and> at_end (dropWhile is_digit r)
      then Some (takeWhile is_digit r) else None)"

definition dot_star_end :: "string \<Rightarrow> string option" where
  \<comment> \<open>\<^verbatim>\<open>(.*)$\<close>, where the dot matches no newline\<close>
  "dot_star_end r =
     (if at_end (dropWhile (\<lambda>c. c \<noteq> CHR 0x0A) r)
      then Some (takeWhile (\<lambda>c. c \<noteq> CHR 0x0A) r) else None)"

fun match_keyword_then :: "(string \<Rightarrow> bool) \<Rightarrow> string list \<Rightarrow> string \<Rightarrow> string option" where
  \<comment> \<open>\<^verbatim>\<open>(A|B|...)\<close> followed by the rest of a pattern: the first alternative, in order, after
      which the rest matches\<close>
  "match_keyword_then k [] r = None"
| "match_keyword_then k (w # ws) r =
     (case strip_prefix w r of
        Some rest \<Rightarrow> if k rest then Some w else match_keyword_then k ws r
      | None \<Rightarrow> match_keyword_then k ws r)"

definition match_keyword_end :: "string list \<Rightarrow> string \<Rightarrow> string option" where
  \<comment> \<open>\<^verbatim>\<open>(A|B|...)$\<close>\<close>
  "match_keyword_end ws r = match_keyword_then at_end ws r"

definition re_prefix_digits :: "string \<Rightarrow> string \<Rightarrow> string option" where
  \<comment> \<open>\<^verbatim>\<open>^PREFIX(\d+)$\<close>\<close>
  "re_prefix_digits prefix response =
     (case strip_prefix prefix response of None \<Rightarrow> None | Some r \<Rightarrow> match_digits_end r)"

definition re_prefix_sp_digits :: "string \<Rightarrow> string \<Rightarrow> string option" where
  \<comment> \<open>\<^verbatim>\<open>^PREFIX\s?(\d+)$\<close>\<close>
  "re_prefix_sp_digits prefix response =
     (case strip_prefix prefix response of None \<Rightarrow> None | Some r \<Rightarrow> match_digits_end (opt_space r))"

definition re_prefix_s_digits :: "string \<Rightarrow> string \<Rightarrow> string option" where
  \<comment> \<open>\<^verbatim>\<open>^PREFIX\s(\d+)$\<close>\<close>
  "re_prefix_s_digits prefix response =
     (case strip_prefix prefix response of
        None \<Rightarrow> None
      | Some r \<Rightarrow> (case one_space r of None \<Rightarrow> None | Some r1 \<Rightarrow> match_digits_end r1))"

definition re_prefix_keyword :: "string \<Rightarrow> string list \<Rightarrow> string \<Rightarrow> string option" where
  \<comment> \<open>\<^verbatim>\<open>^PREFIX(A|B|...)$\<close>\<close>
  "re_prefix_keyword prefix ws response =
     (case strip_prefix prefix response of None \<Rightarrow> None | Some r \<Rightarrow> match_keyword_end ws r)"

definition re_prefix_sp_keyword :: "string \<Rightarrow> string list \<Rightarrow> string \<Rightarrow> string option" where
  \<comment> \<open>\<^verbatim>\<open>^PREFIX\s?(A|B|...)$\<close>\<close>
  "re_prefix_sp_keyword prefix ws response =
     (case strip_prefix prefix response of
        None \<Rightarrow> None
      | Some r \<Rightarrow> match_keyword_end ws (opt_space r))"

definition re_prefix_s_keyword :: "string \<Rightarrow> string list \<Rightarrow> string \<Rightarrow> string option" where
  \<comment> \<open>\<^verbatim>\<open>^PREFIX\s(A|B|...)$\<close>\<close>
  "re_prefix_s_keyword prefix ws response =
     (case strip_prefix prefix response of
        None \<Rightarrow> None
      | Some r \<Rightarrow> (case one_space r of None \<Rightarrow> None | Some r1 \<Rightarrow> match_keyword_end ws r1))"

definition re_prefix_s_rest :: "string \<Rightarrow> string \<Rightarrow> string option" where
  \<comment> \<open>\<^verbatim>\<open>^PREFIX\s(.*)$\<close>\<close>
  "re_prefix_s_rest prefix response =
     (case strip_prefix prefix response of
        None \<Rightarrow> None
      | Some r \<Rightarrow> (case one_space r of None \<Rightarrow> None | Some r1 \<Rightarrow> dot_star_end r1))"

definition re_prefix_rest :: "string \<Rightarrow> string \<Rightarrow> string option" where
  \<comment> \<open>\<^verbatim>\<open>^PREFIX(.*)$\<close>\<close>
  "re_prefix_rest prefix response =
     (case strip_prefix prefix response of None \<Rightarrow> None | Some r \<Rightarrow> dot_star_end r)"

definition sp_rest_matches :: "string \<Rightarrow> bool" where
  \<comment> \<open>whether \<^verbatim>\<open>\s?(.*)$\<close> matches: with the whitespace taken, or without it\<close>
  "sp_rest_matches r =
     ((case one_space r of None \<Rightarrow> False | Some r1 \<Rightarrow> dot_star_end r1 \<noteq> None)
      \<or> dot_star_end r \<noteq> None)"

definition re_nspan :: "string \<Rightarrow> string option" where
  \<comment> \<open>\<^verbatim>\<open>^NSPAN(USN|PAS|OK|NG|LOGIN|LOGOUT)\s?(.*)$\<close>, group 1\<close>
  "re_nspan response =
     (case strip_prefix ''NSPAN'' response of
        None \<Rightarrow> None
      | Some r \<Rightarrow>
          match_keyword_then sp_rest_matches
            [''USN'', ''PAS'', ''OK'', ''NG'', ''LOGIN'', ''LOGOUT''] r)"

section \<open>The sub-parsers\<close>

definition parse_value_with_half_step :: "string \<Rightarrow> real" where
  \<comment> \<open>the argument is always the group of a \<^verbatim>\<open>\d+\<close>, on which \<^verbatim>\<open>float\<close> is the number read\<close>
  "parse_value_with_half_step raw_val_str =
     (if length raw_val_str = 3 then real (int_of_digits raw_val_str) / 10
      else real (int_of_digits raw_val_str))"

definition create_on_off_parser :: "string \<Rightarrow> string \<Rightarrow> string \<Rightarrow> string \<Rightarrow> payload option" where
  "create_on_off_parser prefix on_val off_val response =
     (if \<not> startswith response prefix then None
      else (let state_part = drop (length prefix) response
            in if state_part = on_val then Some [(''state'', VStr ''on'')]
               else if state_part = off_val
               then Some [(''state'', VStr (if off_val = ''STANDBY'' then ''standby'' else ''off''))]
               else None))"

definition create_multi_state_parser ::
    "(string \<Rightarrow> string option) \<Rightarrow> (string \<times> string) list \<Rightarrow> string \<Rightarrow> payload option" where
  \<comment> \<open>the pattern is given by its matching function; no normalization map is the empty one\<close>
  "create_multi_state_parser re_match normalization_map response =
     (case re_match response of
        None \<Rightarrow> None
      | Some g \<Rightarrow>
          (let state = lower g
           in Some [(''state'', VStr (case map_of normalization_map state of
                                        Some v \<Rightarrow> v | None \<Rightarrow> state))]))"

definition parse_volume :: "string \<Rightarrow> event option" where
  "parse_volume response =
     (case re_prefix_sp_digits ''MVMAX'' response of
        Some raw_val_str \<Rightarrow>
          Some (''max_volume_update'', [(''value'', VFloat (parse_value_with_half_step raw_val_str))])
      | None \<Rightarrow>
          (case re_prefix_digits ''MV'' response of
             Some raw_val_str \<Rightarrow>
               Some (''volume_update'', [(''value'', VFloat (parse_value_with_half_step raw_val_str))])
           | None \<Rightarrow> None))"

definition parse_mute :: "string \<Rightarrow> payload option" where
  "parse_mute = create_on_off_parser ''MU'' ''ON'' ''OFF''"

definition parse_subwoofer_status :: "string \<Rightarrow> payload option" where
  "parse_subwoofer_status = create_on_off_parser ''PSSWR '' ''ON'' ''OFF''"

definition parse_dialog_level :: "string \<Rightarrow> payload option" where
  "parse_dialog_level response =
     (if response = ''PSDIL OFF'' \<or> response = ''PSDILOFF'' then Some [(''state'', VStr ''off'')]
      else if response = ''PSDIL ON'' \<or> response = ''PSDILON'' then Some [(''state'', VStr ''on'')]
      else (case re_prefix_sp_digits ''PSDIL'' response of
              Some raw_val_str \<Rightarrow> Some [(''value'', VFloat (parse_value_with_half_step raw_val_str))]
            | None \<Rightarrow> None))"

definition parse_mdax :: "string \<Rightarrow> payload option" where
  "parse_mdax =
     create_multi_state_parser (re_prefix_sp_keyword ''PSMDAX'' [''OFF'', ''LOW'', ''MED'', ''HI''])
       [(''med'', ''medium''), (''hi'', ''high'')]"

definition parse_cinema_eq :: "string \<Rightarrow> payload option" where
  "parse_cinema_eq = create_on_off_parser ''PSCINEQ'' ''ON'' ''OFF''"

definition parse_dynamic_eq :: "string \<Rightarrow> payload option" where
  "parse_dynamic_eq = create_on_off_parser ''PSDYNEQ'' ''ON'' ''OFF''"

definition parse_dynamic_volume :: "string \<Rightarrow> payload option" where
  "parse_dynamic_volume =
     create_multi_state_parser (re_prefix_sp_keyword ''PSDYNVOL'' [''OFF'', ''LIT'', ''MED'', ''HEV''])
       [(''lit'', ''light''), (''med'', ''medium''), (''hev'', ''heavy'')]"

definition picture_mode_map :: "(string \<times> string) list" where
  "picture_mode_map =
     [(''PVOFF'', ''off''), (''PVSTD'', ''standard''), (''PVMOV'', ''movie''), (''PVVVD'', ''vivid''),
      (''PVSTM'', ''stream''), (''PVCTM'', ''custom''), (''PVDAY'', ''isf_day''),
      (''PVNGT'', ''isf_night'')]"

definition parse_picture_mode :: "string \<Rightarrow> payload option" where
  "parse_picture_mode response =
     (case map_of picture_mode_map response of
        Some m \<Rightarrow> Some [(''state'', VStr m)]
      | None \<Rightarrow> None)"

definition parse_graphic_eq :: "string \<Rightarrow> payload option" where
  "parse_graphic_eq = create_on_off_parser ''PSGEQ'' ''ON'' ''OFF''"

definition parse_tone_control :: "string \<Rightarrow> payload option" where
  "parse_tone_control = create_on_off_parser ''PSTONE CTRL '' ''ON'' ''OFF''"

definition parse_center_gain :: "string \<Rightarrow> payload option" where
  \<comment> \<open>\<^verbatim>\<open>^PSCEG\s?(\d{2})$\<close>\<close>
  "parse_center_gain response =
     (case re_prefix_sp_digits ''PSCEG'' response of
        Some g \<Rightarrow> if length g = 2 then Some [(''value'', VFloat (real (int_of_digits g) / 10))] else None
      | None \<Rightarrow> None)"

definition parse_dynamic_range_compression :: "string \<Rightarrow> payload option" where
  "parse_dynamic_range_compression =
     create_multi_state_parser (re_prefix_s_keyword ''PSDRC'' [''OFF'', ''LOW'', ''MID'', ''HI''])
       [(''mid'', ''medium''), (''hi'', ''high'')]"

definition parse_eco_mode :: "string \<Rightarrow> payload option" where
  "parse_eco_mode =
     create_multi_state_parser (re_prefix_sp_keyword ''PSEC'' [''ON'', ''AUTO'', ''OFF'']) []"

definition parse_audyssey_dyn_comp :: "string \<Rightarrow> payload option" where
  "parse_audyssey_dyn_comp =
     create_multi_state_parser (re_prefix_sp_keyword ''PSDCA'' [''AUTO'', ''OFF'']) []"

definition parse_sound_detail :: "string \<Rightarrow> payload option" where
  "parse_sound_detail =
     create_multi_state_parser (re_prefix_sp_keyword ''SD'' [''AUTO'', ''ANALOG'', ''HDMI'', ''ARC'']) []"

definition parse_digital_control :: "string \<Rightarrow> payload option" where
  "parse_digital_control =
     create_multi_state_parser (re_prefix_keyword ''DC'' [''AUTO'', ''ANALOG'', ''HDMI'', ''DIGITAL'']) []"

definition create_numeric_parser :: "string \<Rightarrow> string \<Rightarrow> payload option" where
  "create_numeric_parser prefix response =
     (case re_prefix_sp_digits prefix response of
        Some g \<Rightarrow> Some [(''level'', VInt (int (int_of_digits g)))]
      | None \<Rightarrow> None)"

fun match_lock :: "string list \<Rightarrow> string \<Rightarrow> (string \<times> string) option" where
  \<comment> \<open>\<^verbatim>\<open>^(SYREMOTE|SYPANEL(?:\+V)?) LOCK (ON|OFF)$\<close>, over the alternatives of group 1 in the
      order the pattern tries them\<close>
  "match_lock [] response = None"
| "match_lock (w # ws) response =
     (case strip_prefix (w @ '' LOCK '') response of
        Some r \<Rightarrow>
          (case match_keyword_end [''ON'', ''OFF''] r of
             Some st \<Rightarrow> Some (w, st)
           | None \<Rightarrow> match_lock ws response)
      | None \<Rightarrow> match_lock ws response)"

definition parse_system_lock :: "string \<Rightarrow> event option" where
  "parse_system_lock response =
     (case match_lock [''SYREMOTE'', ''SYPANEL+V'', ''SYPANEL''] response of
        Some (lock_type_raw, state_raw) \<Rightarrow>
          (let lock_type = lower lock_type_raw;
               state = lower state_raw;
               event_name = (if lock_type = ''syremote'' then ''remote_lock_update''
                             else ''panel_lock_update'')
           in Some (event_name, [(''state'', VStr state)]))
      | None \<Rightarrow> None)"

definition parse_sound_mode :: "string \<Rightarrow> payload option" where
  "parse_sound_mode response =
     (if startswith response ''MS'' then Some [(''mode'', VStr (drop 2 response))] else None)"

definition parse_smart_select :: "string \<Rightarrow> payload option" where
  "parse_smart_select response =
     (if startswith response ''MSSMART'' then Some [(''selection'', VStr response)] else None)"

definition parse_play_state :: "string \<Rightarrow> payload option" where
  \<comment> \<open>\<^verbatim>\<open>response.split(' ', 1)[1]\<close> is what follows the first space, which both prefixes have\<close>
  "parse_play_state response =
     (if startswith response ''NSF '' \<or> startswith response ''CRPLYSTS ''
      then Some [(''state'', VStr (drop 1 (dropWhile (\<lambda>c. c \<noteq> CHR '' '') response)))]
      else None)"

definition parse_sleep_timer :: "string \<Rightarrow> payload option" where
  "parse_sleep_timer response =
     (if response = ''SLPOFF'' then Some [(''state'', VStr ''off'')]
      else (case re_prefix_digits ''SLP'' response of
              Some g \<Rightarrow>
                (let minutes = int_of_digits g
                 in if minutes = 0 then Some [(''state'', VStr ''off'')]
                    else Some [(''state'', VStr ''on''), (''minutes'', VInt (int minutes))])
            | None \<Rightarrow> None))"

datatype py_error = ValueError | OverflowError

definition isdigit :: "string \<Rightarrow> bool" where
  \<comment> \<open>\<^verbatim>\<open>str.isdigit\<close>\<close>
  "isdigit s = (s \<noteq> [] \<and> list_all isdigit_char s)"

definition int_space :: "char \<Rightarrow> bool" where
  \<comment> \<open>the whitespace \<^verbatim>\<open>int\<close> skips around a number: the ASCII characters tab to carriage
      return and the space, and the whitespace beyond ASCII, which it reads as a space;
      the separators \<^verbatim>\<open>0x1C\<close> to \<^verbatim>\<open>0x1F\<close>, which \<^verbatim>\<open>str.strip\<close> removes, are not skipped\<close>
  "int_space c = (let n = ord c in (9 \<le> n \<and> n \<le> 13) \<or> n = 32 \<or> n = 133 \<or> n = 160)"

definition py_int :: "string \<Rightarrow> py_error + nat" where
  \<comment> \<open>\<^verbatim>\<open>int(s)\<close> on a string that is digits of \<^verbatim>\<open>str.isdigit\<close> once stripped: \<^verbatim>\<open>int\<close> skips
      its own whitespace and rejects every other character that is no decimal digit,
      the superscript digits among them. The limit some interpreter versions put on the
      length of the digit string is not modelled.\<close>
  "py_int s =
     (let t = rev (dropWhile int_space (rev (dropWhile int_space s)))
      in if t \<noteq> [] \<and> list_all is_digit t then Inr (int_of_digits t) else Inl ValueError)"

definition float_of_int_overflows :: "nat \<Rightarrow> bool" where
  \<comment> \<open>whether the conversion of an integer to a float raises \<^verbatim>\<open>OverflowError\<close>: the integer
      rounds to a value beyond the largest double\<close>
  "float_of_int_overflows n = (int n \<ge> 2 ^ 1024 - 2 ^ 970)"

definition digit_char :: "nat \<Rightarrow> char" where
  "digit_char d = char_of (48 + d)"

fun str_nat :: "nat \<Rightarrow> string" where
  \<comment> \<open>\<^verbatim>\<open>str(n)\<close> of a natural number\<close>
  "str_nat n = (if n < 10 then [digit_char n] else str_nat (n div 10) @ [digit_char (n mod 10)])"

definition format_2f_hundredths :: "nat \<Rightarrow> string" where
  \<comment> \<open>\<^verbatim>\<open>f'{n / 100.0:.2f}'\<close>, the quotient taken exactly: the two decimals the float prints
      as long as it holds the quotient to the hundredth\<close>
  "format_2f_hundredths n =
     str_nat (n div 100) @ ''.'' @ [digit_char (n mod 100 div 10), digit_char (n mod 10)]"

definition parse_tuner_status :: "string \<Rightarrow> py_error + event option" where
  "parse_tuner_status response =
     (if startswith response ''TMAN''
      then Inr (Some (''tuner_mode_update'', [(''mode'', VStr (drop 4 response))]))
      else if startswith response ''TFAN''
      then (let freq_str = drop 4 response
            in if \<not> isdigit (strip freq_str)
               then Inr (Some (''tuner_name_update'', [(''name'', VStr (strip freq_str))]))
               else (case py_int freq_str of
                       Inl e \<Rightarrow> Inl e
                     | Inr n \<Rightarrow>
                         if length freq_str \<ge> 4 \<and> CHR ''.'' \<notin> set freq_str
                         then (if float_of_int_overflows n then Inl OverflowError
                               else Inr (Some (''tuner_frequency_update'',
                                               [(''frequency'', VStr (format_2f_hundredths n))])))
                         else Inr (Some (''tuner_frequency_update'',
                                         [(''frequency'', VStr (str_nat n))]))))
      else if startswith response ''TPAN''
      then Inr (Some (''tuner_preset_update'', [(''preset'', VStr (drop 4 response))]))
      else Inr None)"

definition parse_video_select :: "string \<Rightarrow> event option" where
  "parse_video_select response =
     (if response = ''SVON'' then Some (''video_select_mode_update'', [(''state'', VStr ''on'')])
      else if response = ''SVOFF'' then Some (''video_select_mode_update'', [(''state'', VStr ''off'')])
      else if startswith response ''SV'' \<and> drop 2 response \<noteq> [] \<and> drop 2 response \<noteq> ''?''
      then Some (''video_select_source_update'', [(''source'', VStr (drop 2 response))])
      else None)"

definition parse_trigger :: "string \<Rightarrow> event option" where
  \<comment> \<open>\<^verbatim>\<open>^TR([12])\s(ON|OFF)$\<close>\<close>
  "parse_trigger response =
     (case strip_prefix ''TR'' response of
        Some (trigger_num # r) \<Rightarrow>
          if trigger_num = CHR ''1'' \<or> trigger_num = CHR ''2''
          then (case one_space r of
                  Some r1 \<Rightarrow>
                    (case match_keyword_end [''ON'', ''OFF''] r1 of
                       Some state \<Rightarrow>
                         Some (''trigger_'' @ [trigger_num] @ ''_update'', [(''state'', VStr (lower state))])
                     | None \<Rightarrow> None)
                | None \<Rightarrow> None)
          else None
      | _ \<Rightarrow> None)"

definition re_zone2_source :: "string \<Rightarrow> string option" where
  \<comment> \<open>\<^verbatim>\<open>^Z2([A-Z/]+)$\<close>\<close>
  "re_zone2_source response =
     (case strip_prefix ''Z2'' response of
        None \<Rightarrow> None
      | Some r \<Rightarrow>
          (let cls = (\<lambda>c. is_upper_AZ c \<or> c = CHR ''/'')
           in if takeWhile cls r \<noteq> [] \<and> at_end (dropWhile cls r)
              then Some (takeWhile cls r) else None))"

definition parse_zone2 :: "string \<Rightarrow> event option" where
  "parse_zone2 response =
     (if response = ''Z2ON'' \<or> response = ''Z2OFF''
      then Some (''zone2_power_update'', [(''state'', VStr (if response = ''Z2ON'' then ''on'' else ''off''))])
      else if response = ''Z2MUON'' \<or> response = ''Z2MUOFF''
      then Some (''zone2_mute_update'', [(''state'', VStr (if response = ''Z2MUON'' then ''on'' else ''off''))])
      else (case re_prefix_digits ''Z2'' response of
              Some raw_val_str \<Rightarrow>
                Some (''zone2_volume_update'', [(''value'', VFloat (parse_value_with_half_step raw_val_str))])
            | None \<Rightarrow>
                (case re_zone2_source response of
                   Some src \<Rightarrow> Some (''zone2_input_source_update'', [(''source'', VStr src)])
                 | None \<Rightarrow> None)))"

definition parse_reference_level :: "string \<Rightarrow> payload option" where
  "parse_reference_level response =
     (case re_prefix_s_digits ''PSREFLEV'' response of
        Some g \<Rightarrow> Some [(''value'', VInt (int (int_of_digits g)))]
      | None \<Rightarrow> None)"

definition parse_subwoofer_level_adjust :: "string \<Rightarrow> payload option" where
  "parse_subwoofer_level_adjust response =
     (if response = ''PSSWL OFF'' \<or> response = ''PSSWLOFF'' then Some [(''state'', VStr ''off'')]
      else if response = ''PSSWL ON'' \<or> response = ''PSSWLON'' then Some [(''state'', VStr ''on'')]
      else (case re_prefix_sp_digits ''PSSWL'' response of
              Some raw_val_str \<Rightarrow>
                Some [(''value'', VFloat (parse_value_with_half_step raw_val_str - 50))]
            | None \<Rightarrow> None))"

definition re_channel_level :: "string \<Rightarrow> (string \<times> string) option" where
  \<comment> \<open>\<^verbatim>\<open>^CV([A-Z]{1,3})\s?(\d+)$\<close>: the channel and the digits\<close>
  "re_channel_level response =
     (case strip_prefix ''CV'' response of
        None \<Rightarrow> None
      | Some r \<Rightarrow>
          (let channel = takeWhile is_upper_AZ r
           in if 1 \<le> length channel \<and> length channel \<le> 3
              then (case match_digits_end (opt_space (dropWhile is_upper_AZ r)) of
                      Some raw_val_str \<Rightarrow> Some (channel, raw_val_str)
                    | None \<Rightarrow> None)
              else None))"

definition parse_channel_level :: "string \<Rightarrow> event option" where
  "parse_channel_level response =
     (if response = ''CVEND'' then Some (''channel_level_list_end'', [])
      else (case re_channel_level response of
              Some (channel, raw_val_str) \<Rightarrow>
                Some (''channel_level_update'',
                      [(''channel'', VStr channel),
                       (''value'', VFloat (parse_value_with_half_step raw_val_str - 50))])
            | None \<Rightarrow> None))"

definition parse_power :: "string \<Rightarrow> payload option" where
  "parse_power = create_on_off_parser ''PW'' ''ON'' ''STANDBY''"

definition parse_input_source :: "string \<Rightarrow> payload option" where
  "parse_input_source response =
     (if startswith response ''SI'' then Some [(''source'', VStr (drop 2 response))] else None)"

section \<open>The dispatch table and the decoder\<close>

text \<open>
  An entry of \<^verbatim>\<open>PARSER_CONFIG\<close> is a prefix, a sub-parser and an event name. Where the
  event name is \<^verbatim>\<open>None\<close> the sub-parser returns the whole event (\<open>TupleParser\<close>);
  otherwise it returns the payload, to which the entry's event name is added
  (\<open>DataParser\<close>). The tuner sub-parser can raise an exception, so a sub-parser that
  returns the whole event returns an error or an optional event.
\<close>

datatype table_parser =
    TupleParser "string \<Rightarrow> py_error + event option"
  | DataParser "string \<Rightarrow> payload option" string

definition total :: "(string \<Rightarrow> event option) \<Rightarrow> string \<Rightarrow> py_error + event option" where
  \<comment> \<open>a sub-parser that never raises\<close>
  "total f response = Inr (f response)"

definition PARSER_CONFIG :: "(string \<times> table_parser) list" where
  "PARSER_CONFIG =
     [(''MVMAX'', TupleParser (total parse_volume)),
      (''MV'', TupleParser (total parse_volume)),
      (''MU'', DataParser parse_mute ''mute_update''),
      (''PSDIL'', DataParser parse_dialog_level ''dialog_level_update''),
      (''PSMDAX'', DataParser parse_mdax ''mdax_update''),
      (''PSCINEQ'', DataParser parse_cinema_eq ''cinema_eq_update''),
      (''PSDYNEQ'', DataParser parse_dynamic_eq ''dynamic_eq_update''),
      (''PSDYNVOL'', DataParser parse_dynamic_volume ''dynamic_volume_update''),
      (''PV'', DataParser parse_picture_mode ''picture_mode_update''),
      (''PW'', DataParser parse_power ''power_update''),
      (''SI'', DataParser parse_input_source ''input_source_update''),
      (''CV'', TupleParser (total parse_channel_level)),
      (''Z2'', TupleParser (total parse_zone2)),
      (''PSREFLEV'', DataParser parse_reference_level ''reference_level_update''),
      (''PSCEG'', DataParser parse_center_gain ''center_gain_update''),
      (''PSSWL'', DataParser parse_subwoofer_level_adjust ''sub_level_adjust_update''),
      (''PSSWR'', DataParser parse_subwoofer_status ''subwoofer_status_update''),
      (''PSGEQ'', DataParser parse_graphic_eq ''graphic_eq_update''),
      (''PSTONE CTRL '', DataParser parse_tone_control ''tone_control_update''),
      (''PSDRC'', DataParser parse_dynamic_range_compression ''drc_update''),
      (''PSEC'', DataParser parse_eco_mode ''eco_mode_update''),
      (''SYREMOTE LOCK'', TupleParser (total parse_system_lock)),
      (''SYPANEL LOCK'', TupleParser (total parse_system_lock)),
      (''PSDCA'', DataParser parse_audyssey_dyn_comp ''audyssey_dyn_comp_update''),
      (''DC'', DataParser parse_digital_control ''digital_control_update''),
      (''NSEXT'', DataParser (create_on_off_parser ''NSEXT '' ''ON'' ''OFF'') ''nse_extended_update''),
      (''NSPAN'', DataParser (create_multi_state_parser re_nspan []) ''pandora_login_update''),
      (''SSINFAISFSV'',
       DataParser (create_multi_state_parser (re_prefix_s_rest ''SSINFAISFSV'') [])
         ''signal_info_update''),
      (''SSVCTZMAPON'',
       DataParser (create_multi_state_parser (re_prefix_s_rest ''SSVCTZMAPON'') [])
         ''ssv_map_update''),
      (''SV'', TupleParser (total parse_video_select)),
      (''SD'', DataParser parse_sound_detail ''sound_detail_update''),
      (''TR'', TupleParser (total parse_trigger)),
      (''PSLFE'', DataParser (create_numeric_parser ''PSLFE'') ''lfe_level_update''),
      (''PSBAS'', DataParser (create_numeric_parser ''PSBAS'') ''bass_level_update''),
      (''PSTRE'', DataParser (create_numeric_parser ''PSTRE'') ''treble_level_update''),
      (''PSMODE'',
       DataParser (create_multi_state_parser (re_prefix_rest ''PSMODE:'') [])
         ''parameter_mode_update''),
      (''SSSMG'',
       DataParser (create_multi_state_parser (re_prefix_s_rest ''SSSMG'') [])
         ''sound_submode_update''),
      (''ZMON'', DataParser (\<lambda>r. Some [(''state'', VStr ''on'')]) ''main_zone_power_update''),
      (''ZMOFF'', DataParser (\<lambda>r. Some [(''state'', VStr ''off'')]) ''main_zone_power_update''),
      (''SLP'', DataParser parse_sleep_timer ''sleep_timer_update''),
      (''TM'', TupleParser parse_tuner_status),
      (''TF'', TupleParser parse_tuner_status),
      (''TP'', TupleParser parse_tuner_status),
      (''MSSMART'', DataParser parse_smart_select ''smart_select_update''),
      (''MS'', DataParser parse_sound_mode ''sound_mode_update''),
      (''NSF '', DataParser parse_play_state ''play_state_update''),
      (''CRPLYSTS '', DataParser parse_play_state ''play_state_update'')]"

fun apply_entry :: "table_parser \<Rightarrow> string \<Rightarrow> py_error + event option" where
  \<comment> \<open>the body of the loop of \<^verbatim>\<open>parse_response\<close> once the prefix has matched; an empty
      payload is as good as none\<close>
  "apply_entry (TupleParser parser_func) response = parser_func response"
| "apply_entry (DataParser parser_func event_name) response =
     (case parser_func response of
        Some data \<Rightarrow> if data \<noteq> [] then Inr (Some (event_name, data)) else Inr None
      | None \<Rightarrow> Inr None)"

fun dispatch :: "(string \<times> table_parser) list \<Rightarrow> string \<Rightarrow> py_error + event option" where
  \<comment> \<open>the loop of \<^verbatim>\<open>parse_response\<close> over the table\<close>
  "dispatch [] response = Inr None"
| "dispatch ((prefix, parser) # rest) response =
     (if startswith response prefix then apply_entry parser response
      else dispatch rest response)"

definition parse_response ::
    "real \<Rightarrow> real \<Rightarrow> OsdParser \<Rightarrow> string \<Rightarrow> (py_error + event option) \<times> OsdParser" where
  \<comment> \<open>the third argument is the state of the module's one OSD parser, returned updated\<close>
  "parse_response t1 t2 osd_parser response =
     (case parse t1 t2 osd_parser response of
        (Some osd_event, p) \<Rightarrow> (Inr (Some osd_event), p)
      | (None, p) \<Rightarrow> (dispatch PARSER_CONFIG response, p))"

section \<open>Facts about the patterns\<close>

lemma strip_prefix_append: "strip_prefix p (p @ s) = Some s"
  by (induction p) auto

lemma startswith_append: "startswith (p @ s) p"
  by (induction p) auto

lemma digit_not_space: "is_digit c \<Longrightarrow> \<not> isspace c"
  by (auto simp: is_digit_def isspace_def Let_def)


lemma takeWhile_all: "list_all P xs \<Longrightarrow> takeWhile P xs = xs"
  by (induction xs) auto

lemma dropWhile_all: "list_all P xs \<Longrightarrow> dropWhile P xs = []"
  by (induction xs) auto

lemma match_digits_end_digits:
  "list_all is_digit ds \<Longrightarrow> ds \<noteq> [] \<Longrightarrow> match_digits_end ds = Some ds"
  by (simp add: match_digits_end_def takeWhile_all dropWhile_all at_end_def)

lemma opt_space_digits:
  "list_all is_digit ds \<Longrightarrow> opt_space ds = ds"
  by (cases ds) (auto simp: opt_space_def digit_not_space)

lemma re_prefix_sp_digits_digits:
  "list_all is_digit ds \<Longrightarrow> ds \<noteq> [] \<Longrightarrow> re_prefix_sp_digits prefix (prefix @ ds) = Some ds"
  by (simp add: re_prefix_sp_digits_def strip_prefix_append opt_space_digits match_digits_end_digits)






lemma parse_max_volume_digits:
  assumes "list_all is_digit ds" "ds \<noteq> []"
  shows "parse_volume (''MVMAX'' @ ds) = Some (''max_volume_update'', [(''value'', VFloat (parse_value_with_half_step ds))])"
  using re_prefix_sp_digits_digits [OF assms, of "''MVMAX''"] by (simp add: parse_volume_def)





lemma startswith_iff: "startswith s p \<longleftrightarrow> (\<exists>r. s = p @ r)"
  by (induction s p rule: startswith.induct) auto

lemma strip_prefix_None_iff: "strip_prefix p s = None \<longleftrightarrow> \<not> startswith s p"
  by (induction p s rule: strip_prefix.induct) auto

lemma match_nse_non_nse: "\<not> startswith response ''NSE'' \<Longrightarrow> match_nse response = None"
  using strip_prefix_None_iff [of "''NSE''" response] by (simp add: match_nse_def)

lemma parse_non_nse:
  "\<not> startswith response ''NSE'' \<Longrightarrow>
   parse t1 t2 p response =
     (case pending_selected_line p of
        None \<Rightarrow> (None, p)
      | Some line \<Rightarrow>
          (Some (if screen_mode (ctx p) = Some MODE_CONTEXT_MENU
                 then ''osd_context_menu_item_update'' else ''osd_menu_item_update'',
                 [(''line'', VInt line), (''text'', VStr (clean_osd_text response)),
                  (''is_selected'', VBool True)]),
           p\<lparr>pending_selected_line := None\<rparr>))"
  by (simp add: parse_def parse_nse_def match_nse_non_nse Let_def split: option.splits)

lemma mvmax_not_nse: "startswith response ''MVMAX'' \<Longrightarrow> \<not> startswith response ''NSE''"
  by (auto simp: startswith_iff)

lemma mvmax_no_plain_volume:
  assumes "startswith response ''MVMAX''"
  shows "parse_volume response \<noteq> Some (''volume_update'', pl)"
proof -
  obtain r where r: "response = ''MVMAX'' @ r"
    using assms by (auto simp: startswith_iff)
  have "re_prefix_digits ''MV'' response = None"
    by (simp add: r re_prefix_digits_def match_digits_end_def is_digit_def ord_def)
  then show ?thesis
    by (simp add: parse_volume_def split: option.splits)
qed

lemma dispatch_mvmax:
  "startswith response ''MVMAX'' \<Longrightarrow> dispatch PARSER_CONFIG response = Inr (parse_volume response)"
  by (simp add: PARSER_CONFIG_def total_def)

lemma parse_volume_MVMAX735:
  "parse_volume ''MVMAX735'' = Some (''max_volume_update'', [(''value'', VFloat 73.5)])"
proof -
  have d: "list_all is_digit ''735''"
    by (simp add: is_digit_def ord_def)
  have "parse_value_with_half_step ''735'' = 73.5"
    by (simp add: parse_value_with_half_step_def int_of_digits_def digit_val_def ord_def)
  then show ?thesis
    using parse_max_volume_digits [OF d] by simp
qed


lemma dispatch_no_match:
  "list_all (\<lambda>e. \<not> startswith response (fst e)) table \<Longrightarrow> dispatch table response = Inr None"
  by (induction table) auto

lemma match_nse_slot:
  "is_digit d \<Longrightarrow> match_nse (''NSE'' @ d # raw_text) = Some (int (digit_val d), raw_text)"
  by (simp add: match_nse_def)

lemma parse_nse_line:
  "parse t1 t2 p (''NSE'' @ d # raw_text) = parse_nse t1 t2 p (''NSE'' @ d # raw_text)"
  by (simp add: parse_def split: option.splits)

lemma parse_title_line:
  "parse t1 t2 p (''NSE0'' @ raw_text) =
     (Some (fst (handle_title_line t2 (reset_context_if_timed_out t1 p) (clean_osd_text raw_text))),
      snd (handle_title_line t2 (reset_context_if_timed_out t1 p) (clean_osd_text raw_text)))"
proof -
  have "match_nse (''NSE'' @ CHR ''0'' # raw_text) = Some (0, raw_text)"
    using match_nse_slot [of "CHR ''0''" raw_text] by (simp add: is_digit_def digit_val_def ord_def)
  then show ?thesis
    using parse_nse_line [of t1 t2 p "CHR ''0''" raw_text]
    by (simp add: parse_nse_def Let_def split: prod.splits)
qed

lemma title_line_state:
  "screen_mode (ctx (snd (parse t1 t2 p (''NSE0'' @ raw_text)))) =
     Some (if lower (clean_osd_text raw_text) = ''now playing'' then MODE_NOW_PLAYING
           else if clean_osd_text raw_text = ''Menu'' then MODE_CONTEXT_MENU
           else MODE_MENU)"
  "last_update_time (ctx (snd (parse t1 t2 p (''NSE0'' @ raw_text)))) = t2"
  "context_timeout (snd (parse t1 t2 p (''NSE0'' @ raw_text))) = context_timeout p"
  unfolding parse_title_line
  by (simp_all add: handle_title_line_def reset_context_if_timed_out_def Let_def)

lemma clean_titles:
  "clean_osd_text ''Now Playing'' = ''Now Playing''"
  "clean_osd_text ''Setup Menu'' = ''Setup Menu''"
  "lower ''Now Playing'' = ''now playing''"
  "lower ''Setup Menu'' = ''setup menu''"
  by code_simp+

lemma song_line:
  "match_nse (''NSE1'' @ [CHR 0x01] @ ''Song A'') = Some (1, [CHR 0x01] @ ''Song A'')"
  "strip ([CHR 0x01] @ ''Song A'') \<noteq> []"
  "infer_mode ([CHR 0x01] @ ''Song A'') = Some MODE_NOW_PLAYING"
  "handle_now_playing_line 1 ([CHR 0x01] @ ''Song A'')
   = Some (''now_playing_title_update'', [(''text'', VStr ''Song A'')])"
  "fst (handle_menu_line q 1 ([CHR 0x01] @ ''Song A'')) = None"
  by code_simp+

lemma song_line_parse:
  "parse t3 t4 q (''NSE1'' @ [CHR 0x01] @ ''Song A'')
   = parse_nse t3 t4 q (''NSE1'' @ [CHR 0x01] @ ''Song A'')"
  using parse_nse_line [of t3 t4 q "CHR ''1''" "[CHR 0x01] @ ''Song A''"] by simp

lemma song_line_now_playing:
  assumes "screen_mode (ctx q) = Some MODE_NOW_PLAYING"
  shows "fst (parse t3 t4 q (''NSE1'' @ [CHR 0x01] @ ''Song A''))
         = Some (''now_playing_title_update'', [(''text'', VStr ''Song A'')])"
  unfolding song_line_parse
  using assms
  by (simp add: parse_nse_def song_line reset_context_if_timed_out_def Let_def del: append.simps)

lemma song_line_menu:
  assumes "screen_mode (ctx q) = Some MODE_MENU"
  shows "fst (parse t3 t4 q (''NSE1'' @ [CHR 0x01] @ ''Song A''))
         = (if t3 - last_update_time (ctx q) > context_timeout q
            then Some (''now_playing_title_update'', [(''text'', VStr ''Song A'')])
            else None)"
  unfolding song_line_parse
  using assms
  by (simp add: parse_nse_def song_line reset_context_if_timed_out_def Let_def del: append.simps)

lemma nse2_line:
  "match_nse ''NSE2'' = Some (2, [])"
  "strip [] = []"
  "\<not> startswith ''Selected Text'' ''NSE''"
  "clean_osd_text ''Selected Text'' = ''Selected Text''"
  by code_simp+

lemma nse2_parse: "parse t1 t2 p ''NSE2'' = parse_nse t1 t2 p ''NSE2''"
  using parse_nse_line [of t1 t2 p "CHR ''2''" "[]"] by simp



lemma parse_starts_nse:
  "startswith response ''NSE'' \<Longrightarrow> parse t1 t2 p response = parse_nse t1 t2 p response"
  by (simp add: parse_def split: option.splits)

lemma parse_nse_event_ignores_pending:
  "fst (parse_nse t1 t2 (p\<lparr>pending_selected_line := m\<rparr>) response) = fst (parse_nse t1 t2 p response)"
  by (auto simp: parse_nse_def handle_title_line_def handle_menu_line_def
        reset_context_if_timed_out_def Let_def
      split: option.splits prod.splits mode.splits)

lemma parse_nse_pending:
  "pending_selected_line (snd (parse_nse t1 t2 p response)) =
     (case match_nse response of
        None \<Rightarrow> pending_selected_line p
      | Some (line, raw_text) \<Rightarrow>
          if line = 0
          then (if clean_osd_text raw_text \<noteq> screen_title (ctx p) then None
                else pending_selected_line p)
          else if line \<noteq> 8 \<and> strip raw_text = []
                  \<and> t1 - last_update_time (ctx p) \<le> context_timeout p
                  \<and> (screen_mode (ctx p) = Some MODE_MENU
                       \<or> screen_mode (ctx p) = Some MODE_CONTEXT_MENU)
          then Some line
          else pending_selected_line p)"
  by (auto simp: parse_nse_def handle_title_line_def handle_menu_line_def
        reset_context_if_timed_out_def Let_def
      split: option.splits prod.splits mode.splits)

lemma clean_MVMAX735: "clean_osd_text ''MVMAX735'' = ''MVMAX735''"
  by code_simp

section \<open>The half-step convention\<close>



text \<open>
  Claim C10. The routine divides by 10 only when the digit string has exactly three
  characters; a digit string of any other length is returned as the number it reads:
  the one digit \<^verbatim>\<open>5\<close> is 5.0 and the four digits \<^verbatim>\<open>1005\<close> are 1005.0, not 100.5.
\<close>

theorem half_step_only_three_digits:
  "(length raw_val_str \<noteq> 3 \<longrightarrow>
      parse_value_with_half_step raw_val_str = real (int_of_digits raw_val_str))
   \<and> (length raw_val_str = 3 \<longrightarrow>
      parse_value_with_half_step raw_val_str = real (int_of_digits raw_val_str) / 10)
   \<and> parse_value_with_half_step ''5'' = 5
   \<and> parse_value_with_half_step ''1005'' = 1005
   \<and> parse_value_with_half_step ''1005'' \<noteq> 100.5"
  by (simp add: parse_value_with_half_step_def int_of_digits_def digit_val_def ord_def)

theorem half_step_only_three_digits_witness:
  "length ''7305'' \<noteq> (3::nat) \<and> parse_value_with_half_step ''7305'' = 7305"
proof -
  have "parse_value_with_half_step ''7305'' = real (int_of_digits ''7305'')"
    using half_step_only_three_digits [of "''7305''"] by simp
  then show ?thesis
    by (simp add: int_of_digits_def digit_val_def ord_def)
qed

section \<open>The dispatch table\<close>

text \<open>
  Claim C6, as the spec states it: decoding the line \<^verbatim>\<open>MVMAX735\<close> gives exactly the event
  \<^verbatim>\<open>max_volume_update\<close>. The decoder gives the OSD parser every line first, and an OSD
  parser that holds a pending fragment consumes the line as the text of that slot:
  after the title \<^verbatim>\<open>Setup Menu\<close> and the fragment \<^verbatim>\<open>NSE2\<close>, the line decodes to a menu
  item update for slot 2.
\<close>

theorem mvmax_consumed_by_pending_fragment:
  "pending_selected_line
     (snd (parse 2 2 (snd (parse 1 1 (OsdParser_init 5) ''NSE0Setup Menu'')) ''NSE2'')) = Some 2
   \<and> fst (parse_response 3 3
            (snd (parse 2 2 (snd (parse 1 1 (OsdParser_init 5) ''NSE0Setup Menu'')) ''NSE2''))
            ''MVMAX735'')
     = Inr (Some (''osd_menu_item_update'',
                  [(''line'', VInt 2), (''text'', VStr ''MVMAX735''), (''is_selected'', VBool True)]))"
  by code_simp

text \<open>
  Claim C6, amended: the line \<^verbatim>\<open>MVMAX735\<close> decodes to exactly the event
  \<^verbatim>\<open>max_volume_update\<close> with value 73.5 by the volume sub-parser and by the loop over
  the dispatch table, and by \<^verbatim>\<open>parse_response\<close> whenever the OSD parser holds no pending
  fragment; when one is pending, the line is emitted as the text of the pending slot.
  No line that starts with \<^verbatim>\<open>MVMAX\<close> ever decodes to a plain \<^verbatim>\<open>volume_update\<close>, whatever
  the state of the OSD parser, although the line also bears the shorter prefix \<^verbatim>\<open>MV\<close>.
\<close>

theorem max_volume_never_plain_volume:
  "parse_volume ''MVMAX735'' = Some (''max_volume_update'', [(''value'', VFloat 73.5)])
   \<and> dispatch PARSER_CONFIG ''MVMAX735'' = Inr (Some (''max_volume_update'', [(''value'', VFloat 73.5)]))
   \<and> (pending_selected_line p = None \<longrightarrow>
        fst (parse_response t1 t2 p ''MVMAX735'')
        = Inr (Some (''max_volume_update'', [(''value'', VFloat 73.5)])))
   \<and> (pending_selected_line p = Some n \<longrightarrow>
        fst (parse_response t1 t2 p ''MVMAX735'')
        = Inr (Some (if screen_mode (ctx p) = Some MODE_CONTEXT_MENU
                     then ''osd_context_menu_item_update'' else ''osd_menu_item_update'',
                     [(''line'', VInt n), (''text'', VStr ''MVMAX735''),
                      (''is_selected'', VBool True)])))
   \<and> (startswith response ''MVMAX'' \<longrightarrow>
        parse_volume response \<noteq> Some (''volume_update'', pl)
        \<and> dispatch PARSER_CONFIG response \<noteq> Inr (Some (''volume_update'', pl))
        \<and> fst (parse_response t1 t2 p response) \<noteq> Inr (Some (''volume_update'', pl)))"
proof -
  have s: "startswith ''MVMAX735'' ''MVMAX''"
    by simp
  have a: "dispatch PARSER_CONFIG ''MVMAX735'' = Inr (Some (''max_volume_update'', [(''value'', VFloat 73.5)]))"
    using dispatch_mvmax [OF s] parse_volume_MVMAX735 by simp
  have b: "fst (parse_response t1 t2 p ''MVMAX735'')
           = Inr (Some (''max_volume_update'', [(''value'', VFloat 73.5)]))"
    if "pending_selected_line p = None"
    using that a parse_non_nse [OF mvmax_not_nse [OF s], of t1 t2 p]
    by (simp add: parse_response_def)
  have b': "fst (parse_response t1 t2 p ''MVMAX735'')
        = Inr (Some (if screen_mode (ctx p) = Some MODE_CONTEXT_MENU
                     then ''osd_context_menu_item_update'' else ''osd_menu_item_update'',
                     [(''line'', VInt n), (''text'', VStr ''MVMAX735''),
                      (''is_selected'', VBool True)]))"
    if "pending_selected_line p = Some n"
    using that parse_non_nse [OF mvmax_not_nse [OF s], of t1 t2 p] clean_MVMAX735
    by (simp add: parse_response_def)
  have c: "fst (parse_response t1 t2 p response) \<noteq> Inr (Some (''volume_update'', pl))"
    if m: "startswith response ''MVMAX''"
  proof (cases "pending_selected_line p")
    case None
    then show ?thesis
      using parse_non_nse [OF mvmax_not_nse [OF m], of t1 t2 p] dispatch_mvmax [OF m]
        mvmax_no_plain_volume [OF m, of pl]
      by (simp add: parse_response_def)
  next
    case (Some n)
    then show ?thesis
      using parse_non_nse [OF mvmax_not_nse [OF m], of t1 t2 p]
      by (simp add: parse_response_def)
  qed
  show ?thesis
    using parse_volume_MVMAX735 a b b' c mvmax_no_plain_volume [of response pl]
      dispatch_mvmax [of response]
    by auto
qed

theorem max_volume_never_plain_volume_witness:
  "pending_selected_line (OsdParser_init 5) = None
   \<and> fst (parse_response 1 1 (OsdParser_init 5) ''MVMAX735'')
     = Inr (Some (''max_volume_update'', [(''value'', VFloat 73.5)]))
   \<and> pending_selected_line ((OsdParser_init 5)\<lparr>pending_selected_line := Some 4\<rparr>) = Some 4
   \<and> fst (parse_response 1 1 ((OsdParser_init 5)\<lparr>pending_selected_line := Some 4\<rparr>) ''MVMAX735'')
     = Inr (Some (''osd_menu_item_update'',
                  [(''line'', VInt 4), (''text'', VStr ''MVMAX735''), (''is_selected'', VBool True)]))
   \<and> startswith ''MVMAX 73'' ''MVMAX''
   \<and> fst (parse_response 1 1 (OsdParser_init 5) ''MVMAX 73'') \<noteq> Inr (Some (''volume_update'', [(''value'', VFloat 73)]))"
  using max_volume_never_plain_volume [where p = "OsdParser_init 5" and ?t1.0 = 1 and ?t2.0 = 1
      and response = "''MVMAX 73''" and pl = "[(''value'', VFloat 73)]"]
    max_volume_never_plain_volume [where p = "(OsdParser_init 5)\<lparr>pending_selected_line := Some 4\<rparr>"
      and n = 4 and ?t1.0 = 1 and ?t2.0 = 1]
  by (simp add: OsdParser_init_def create_default_context_def)



section \<open>The OSD parser: fragments\<close>

text \<open>
  Claim C1, as the spec states it: once \<open>pending_selected_line\<close> is set to a slot, the
  very next line processed is consumed as that slot's text whatever its prefix. The
  parser does not do so for a line that starts with \<^verbatim>\<open>NSE\<close>: after the title
  \<^verbatim>\<open>Setup Menu\<close> and the fragment \<^verbatim>\<open>NSE2\<close>, the line \<^verbatim>\<open>NSE3\<close> with a menu item is decoded
  as slot 3, not selected, and slot 2 stays pending.
\<close>

theorem pending_not_consumed_by_nse_line:
  "pending_selected_line
     (snd (parse 2 2 (snd (parse 1 1 (OsdParser_init 5) ''NSE0Setup Menu'')) ''NSE2'')) = Some 2
   \<and> fst (parse 3 3 (snd (parse 2 2 (snd (parse 1 1 (OsdParser_init 5) ''NSE0Setup Menu'')) ''NSE2''))
            (''NSE3'' @ [CHR 0x05] @ ''Item''))
     = Some (''osd_menu_item_update'',
             [(''line'', VInt 3), (''text'', VStr ''Item''), (''is_selected'', VBool False)])
   \<and> pending_selected_line
       (snd (parse 3 3 (snd (parse 2 2 (snd (parse 1 1 (OsdParser_init 5) ''NSE0Setup Menu'')) ''NSE2''))
               (''NSE3'' @ [CHR 0x05] @ ''Item''))) = Some 2"
  by code_simp

text \<open>
  Claim C1, amended: in every state in which \<open>pending_selected_line\<close> is set to a slot
  \<open>n\<close>, a very next line that does not start with \<^verbatim>\<open>NSE\<close> is consumed as the text of
  slot \<open>n\<close>: it is emitted as a menu item update (a context menu item update in
  context menu mode) with \<open>is_selected\<close> true, and the pending marker is cleared, so
  that a second such line is not consumed by the same marker. A very next line that
  starts with \<^verbatim>\<open>NSE\<close> is not consumed: it gives the event it gives with no marker
  pending, and the marker stays \<open>n\<close> unless the line is a slot 0 title whose text differs
  from the stored title, which clears the marker, or a line of a slot other than 0 and
  8 that is empty once stripped, in menu or context menu mode before the timeout, which
  sets the marker to its own slot.
\<close>

theorem pending_marker_next_line:
  assumes "pending_selected_line p = Some n"
  shows "(\<not> startswith response ''NSE'' \<longrightarrow>
            parse t1 t2 p response =
              (Some (if screen_mode (ctx p) = Some MODE_CONTEXT_MENU
                     then ''osd_context_menu_item_update'' else ''osd_menu_item_update'',
                     [(''line'', VInt n), (''text'', VStr (clean_osd_text response)),
                      (''is_selected'', VBool True)]),
               p\<lparr>pending_selected_line := None\<rparr>)
            \<and> (\<not> startswith response2 ''NSE'' \<longrightarrow>
                 parse t3 t4 (snd (parse t1 t2 p response)) response2
                 = (None, p\<lparr>pending_selected_line := None\<rparr>)))
       \<and> (startswith response ''NSE'' \<longrightarrow>
            fst (parse t1 t2 p response)
            = fst (parse t1 t2 (p\<lparr>pending_selected_line := None\<rparr>) response)
            \<and> pending_selected_line (snd (parse t1 t2 p response)) =
                (case match_nse response of
                   None \<Rightarrow> Some n
                 | Some (line, raw_text) \<Rightarrow>
                     if line = 0
                     then (if clean_osd_text raw_text \<noteq> screen_title (ctx p) then None
                           else Some n)
                     else if line \<noteq> 8 \<and> strip raw_text = []
                             \<and> t1 - last_update_time (ctx p) \<le> context_timeout p
                             \<and> (screen_mode (ctx p) = Some MODE_MENU
                                  \<or> screen_mode (ctx p) = Some MODE_CONTEXT_MENU)
                     then Some line
                     else Some n))"
proof -
  have a: "parse t1 t2 p response =
              (Some (if screen_mode (ctx p) = Some MODE_CONTEXT_MENU
                     then ''osd_context_menu_item_update'' else ''osd_menu_item_update'',
                     [(''line'', VInt n), (''text'', VStr (clean_osd_text response)),
                      (''is_selected'', VBool True)]),
               p\<lparr>pending_selected_line := None\<rparr>)"
    if "\<not> startswith response ''NSE''"
    using that assms parse_non_nse [of response t1 t2 p] by simp
  have b: "parse t3 t4 (snd (parse t1 t2 p response)) response2
           = (None, p\<lparr>pending_selected_line := None\<rparr>)"
    if "\<not> startswith response ''NSE''" "\<not> startswith response2 ''NSE''"
    using a [OF that(1)] parse_non_nse [OF that(2), of t3 t4 "p\<lparr>pending_selected_line := None\<rparr>"]
    by simp
  have c: "fst (parse t1 t2 p response)
           = fst (parse t1 t2 (p\<lparr>pending_selected_line := None\<rparr>) response)"
    if "startswith response ''NSE''"
    using parse_starts_nse [OF that] parse_nse_event_ignores_pending [of t1 t2 None p response]
    by simp
  have d: "pending_selected_line (snd (parse t1 t2 p response)) =
                (case match_nse response of
                   None \<Rightarrow> Some n
                 | Some (line, raw_text) \<Rightarrow>
                     if line = 0
                     then (if clean_osd_text raw_text \<noteq> screen_title (ctx p) then None
                           else Some n)
                     else if line \<noteq> 8 \<and> strip raw_text = []
                             \<and> t1 - last_update_time (ctx p) \<le> context_timeout p
                             \<and> (screen_mode (ctx p) = Some MODE_MENU
                                  \<or> screen_mode (ctx p) = Some MODE_CONTEXT_MENU)
                     then Some line
                     else Some n)"
    if "startswith response ''NSE''"
    unfolding parse_starts_nse [OF that] parse_nse_pending assms by (rule refl)
  show ?thesis
    using a b c d by blast
qed

theorem pending_marker_next_line_witness:
  "pending_selected_line
     (snd (parse 2 2 (snd (parse 1 1 (OsdParser_init 5) ''NSE0Setup Menu'')) ''NSE2'')) = Some 2
   \<and> fst (parse 3 3 (snd (parse 2 2 (snd (parse 1 1 (OsdParser_init 5) ''NSE0Setup Menu'')) ''NSE2''))
            ''MV35'')
     = Some (''osd_menu_item_update'',
             [(''line'', VInt 2), (''text'', VStr ''MV35''), (''is_selected'', VBool True)])
   \<and> fst (parse 5 5 (snd (parse 3 3 (snd (parse 2 2 (snd (parse 1 1 (OsdParser_init 5) ''NSE0Setup Menu'')) ''NSE2''))
            ''MV35'')) ''MV36'') = None
   \<and> pending_selected_line
       (snd (parse 3 3 (snd (parse 2 2 (snd (parse 1 1 (OsdParser_init 5) ''NSE0Setup Menu'')) ''NSE2''))
               (''NSE3'' @ [CHR 0x05] @ ''Item''))) = Some 2
   \<and> pending_selected_line
       (snd (parse 3 3 (snd (parse 2 2 (snd (parse 1 1 (OsdParser_init 5) ''NSE0Setup Menu'')) ''NSE2''))
               ''NSE0Other'')) = None
   \<and> pending_selected_line
       (snd (parse 3 3 (snd (parse 2 2 (snd (parse 1 1 (OsdParser_init 5) ''NSE0Setup Menu'')) ''NSE2''))
               ''NSE3'')) = Some 3"
proof -
  let ?p = "snd (parse 2 2 (snd (parse 1 1 (OsdParser_init 5) ''NSE0Setup Menu'')) ''NSE2'')"
  have a: "pending_selected_line ?p = Some 2"
    by code_simp
  have b: "\<not> startswith ''MV35'' ''NSE''" "\<not> startswith ''MV36'' ''NSE''"
    "startswith (''NSE3'' @ [CHR 0x05] @ ''Item'') ''NSE''" "startswith ''NSE0Other'' ''NSE''"
    "startswith ''NSE3'' ''NSE''"
    by simp_all
  have c: "screen_mode (ctx ?p) = Some MODE_MENU" "screen_title (ctx ?p) = ''Setup Menu''"
    "(3::real) - last_update_time (ctx ?p) \<le> context_timeout ?p"
    by code_simp+
  have d: "clean_osd_text ''MV35'' = ''MV35''" "clean_osd_text ''Other'' = ''Other''"
    "match_nse (''NSE3'' @ [CHR 0x05] @ ''Item'') = Some (3, [CHR 0x05] @ ''Item'')"
    "match_nse ''NSE0Other'' = Some (0, ''Other'')" "match_nse ''NSE3'' = Some (3, [])"
    "strip ([CHR 0x05] @ ''Item'') \<noteq> []" "strip [] = []"
    by code_simp+
  note t = pending_marker_next_line [OF a, of "''MV35''" 3 3 "''MV36''" 5 5]
  have e: "parse 3 3 ?p ''MV35'' =
             (Some (''osd_menu_item_update'',
                    [(''line'', VInt 2), (''text'', VStr ''MV35''), (''is_selected'', VBool True)]),
              ?p\<lparr>pending_selected_line := None\<rparr>)"
    using t b(1) c(1) d(1) by simp
  have f: "parse 5 5 (snd (parse 3 3 ?p ''MV35'')) ''MV36'' = (None, ?p\<lparr>pending_selected_line := None\<rparr>)"
    using t b(1,2) by blast
  have g: "pending_selected_line (snd (parse 3 3 ?p (''NSE3'' @ [CHR 0x05] @ ''Item''))) = Some 2"
    using pending_marker_next_line [OF a, of "''NSE3'' @ [CHR 0x05] @ ''Item''" 3 3] b(3) d(3,6)
    by (simp del: append.simps)
  have h: "pending_selected_line (snd (parse 3 3 ?p ''NSE0Other'')) = None"
    using pending_marker_next_line [OF a, of "''NSE0Other''" 3 3] b(4) d(2,4) c(2)
    by simp
  have i: "pending_selected_line (snd (parse 3 3 ?p ''NSE3'')) = Some 3"
    using pending_marker_next_line [OF a, of "''NSE3''" 3 3] b(5) d(5,7) c(1,3)
    by simp
  show ?thesis
    unfolding f unfolding e using a g h i by simp
qed

section \<open>The OSD parser: the mode decides what a slot means\<close>

text \<open>
  Claim C3, as the spec states it: the slot 1 line that carries the now-playing
  signifier and \<^verbatim>\<open>Song A\<close> gives a menu item event when the title before it was
  \<^verbatim>\<open>Setup Menu\<close>. In menu mode the parser emits an item only for a line that starts
  with one of the menu signifiers, and the now-playing signifier is none of them: the
  line gives no event.
\<close>

theorem song_line_after_menu_title_no_event:
  "fst (parse 1 1 (OsdParser_init 5) ''NSE0Setup Menu'')
     = Some (''osd_title_update'', [(''text'', VStr ''Setup Menu'')])
   \<and> fst (parse 2 2 (snd (parse 1 1 (OsdParser_init 5) ''NSE0Setup Menu''))
            (''NSE1'' @ [CHR 0x01] @ ''Song A'')) = None"
  by code_simp

text \<open>
  Claim C3, amended: after the slot 0 title \<^verbatim>\<open>Now Playing\<close>, the slot 1 line with the
  now-playing signifier and \<^verbatim>\<open>Song A\<close> gives the event \<^verbatim>\<open>now_playing_title_update\<close> with
  the text \<^verbatim>\<open>Song A\<close>, from every state and at every time. The same line after the
  title \<^verbatim>\<open>Setup Menu\<close> gives no event while the context has not timed out; once it has,
  the mode is detected from the signifier again and the line gives the now-playing
  title event. It never gives a menu item event.
\<close>

theorem song_line_by_title:
  "fst (parse t3 t4 (snd (parse t1 t2 p ''NSE0Now Playing'')) (''NSE1'' @ [CHR 0x01] @ ''Song A''))
   = Some (''now_playing_title_update'', [(''text'', VStr ''Song A'')])
   \<and> fst (parse t3 t4 (snd (parse t1 t2 p ''NSE0Setup Menu'')) (''NSE1'' @ [CHR 0x01] @ ''Song A''))
     = (if t3 - t2 > context_timeout p
        then Some (''now_playing_title_update'', [(''text'', VStr ''Song A'')])
        else None)"
proof -
  have np: "screen_mode (ctx (snd (parse t1 t2 p (''NSE0'' @ ''Now Playing'')))) = Some MODE_NOW_PLAYING"
    unfolding title_line_state by (simp add: clean_titles)
  have sm: "screen_mode (ctx (snd (parse t1 t2 p (''NSE0'' @ ''Setup Menu'')))) = Some MODE_MENU"
    unfolding title_line_state by (simp add: clean_titles)
  have a: "fst (parse t3 t4 (snd (parse t1 t2 p (''NSE0'' @ ''Now Playing''))) (''NSE1'' @ [CHR 0x01] @ ''Song A''))
           = Some (''now_playing_title_update'', [(''text'', VStr ''Song A'')])"
    by (rule song_line_now_playing [OF np])
  have b: "fst (parse t3 t4 (snd (parse t1 t2 p (''NSE0'' @ ''Setup Menu''))) (''NSE1'' @ [CHR 0x01] @ ''Song A''))
     = (if t3 - t2 > context_timeout p
        then Some (''now_playing_title_update'', [(''text'', VStr ''Song A'')])
        else None)"
    unfolding song_line_menu [OF sm] title_line_state by simp
  show ?thesis
    using a b by simp
qed

theorem song_line_by_title_witness:
  "fst (parse 3 4 (snd (parse 1 2 (OsdParser_init 5) ''NSE0Now Playing'')) (''NSE1'' @ [CHR 0x01] @ ''Song A''))
   = Some (''now_playing_title_update'', [(''text'', VStr ''Song A'')])
   \<and> fst (parse 3 4 (snd (parse 1 2 (OsdParser_init 5) ''NSE0Setup Menu'')) (''NSE1'' @ [CHR 0x01] @ ''Song A''))
     = None
   \<and> fst (parse 30 31 (snd (parse 1 2 (OsdParser_init 5) ''NSE0Setup Menu'')) (''NSE1'' @ [CHR 0x01] @ ''Song A''))
     = Some (''now_playing_title_update'', [(''text'', VStr ''Song A'')])"
  using song_line_by_title [of 3 4 1 2 "OsdParser_init 5"]
    song_line_by_title [of 30 31 1 2 "OsdParser_init 5"]
  by (simp add: OsdParser_init_def)

section \<open>The OSD parser: a fragment in menu mode\<close>

text \<open>
  Claim C2, as the spec states it: from a parser whose screen mode is Menu, the lines
  \<^verbatim>\<open>NSE2\<close> and \<^verbatim>\<open>Selected Text\<close> give exactly one event. The parser checks the inactivity
  timeout before it looks at the mode: when the context is older than the timeout, the
  mode is cleared first, \<^verbatim>\<open>NSE2\<close> buffers nothing and neither line gives an event.
\<close>

theorem stale_menu_fragment_lost:
  "screen_mode (ctx (snd (parse 1 1 (OsdParser_init 5) ''NSE0Setup Menu''))) = Some MODE_MENU
   \<and> fst (parse 100 100 (snd (parse 1 1 (OsdParser_init 5) ''NSE0Setup Menu'')) ''NSE2'') = None
   \<and> fst (parse 101 101
            (snd (parse 100 100 (snd (parse 1 1 (OsdParser_init 5) ''NSE0Setup Menu'')) ''NSE2''))
            ''Selected Text'') = None"
  by code_simp

text \<open>
  Claim C2, amended: from a parser whose screen mode is Menu and whose context has not
  timed out when the first line is processed, \<^verbatim>\<open>NSE2\<close> gives no event and only buffers
  slot 2, and \<^verbatim>\<open>Selected Text\<close> then gives the one event \<^verbatim>\<open>osd_menu_item_update\<close> with
  line 2, text \<^verbatim>\<open>Selected Text\<close> and \<open>is_selected\<close> true.
\<close>

theorem menu_fragment_sequence:
  assumes "screen_mode (ctx p) = Some MODE_MENU"
    and "t1 - last_update_time (ctx p) \<le> context_timeout p"
  shows "parse t1 t2 p ''NSE2''
         = (None, p\<lparr>ctx := (ctx p)\<lparr>last_update_time := t1\<rparr>, pending_selected_line := Some 2\<rparr>)
       \<and> fst (parse t3 t4 (snd (parse t1 t2 p ''NSE2'')) ''Selected Text'')
         = Some (''osd_menu_item_update'',
                 [(''line'', VInt 2), (''text'', VStr ''Selected Text''), (''is_selected'', VBool True)])"
proof -
  have a: "parse t1 t2 p ''NSE2''
           = (None, p\<lparr>ctx := (ctx p)\<lparr>last_update_time := t1\<rparr>, pending_selected_line := Some 2\<rparr>)"
    unfolding nse2_parse using assms
    by (simp add: parse_nse_def nse2_line reset_context_if_timed_out_def Let_def)
  show ?thesis
    unfolding a using assms(1)
    by (simp add: parse_non_nse nse2_line)
qed

theorem menu_fragment_sequence_witness:
  "screen_mode (ctx (snd (parse 1 1 (OsdParser_init 5) ''NSE0Setup Menu''))) = Some MODE_MENU
   \<and> (2::real) - last_update_time (ctx (snd (parse 1 1 (OsdParser_init 5) ''NSE0Setup Menu'')))
       \<le> context_timeout (snd (parse 1 1 (OsdParser_init 5) ''NSE0Setup Menu''))
   \<and> fst (parse 2 2 (snd (parse 1 1 (OsdParser_init 5) ''NSE0Setup Menu'')) ''NSE2'') = None
   \<and> fst (parse 3 3 (snd (parse 2 2 (snd (parse 1 1 (OsdParser_init 5) ''NSE0Setup Menu'')) ''NSE2''))
            ''Selected Text'')
     = Some (''osd_menu_item_update'',
             [(''line'', VInt 2), (''text'', VStr ''Selected Text''), (''is_selected'', VBool True)])"
proof -
  let ?p = "snd (parse 1 1 (OsdParser_init 5) ''NSE0Setup Menu'')"
  have a: "screen_mode (ctx ?p) = Some MODE_MENU"
    by code_simp
  have b: "(2::real) - last_update_time (ctx ?p) \<le> context_timeout ?p"
    by code_simp
  note t = menu_fragment_sequence [OF a b, of 2 3 3]
  have c: "fst (parse 2 2 ?p ''NSE2'') = None"
    using t by simp
  show ?thesis
    using a b c t by blast
qed

section \<open>The OSD parser: an unchanged title\<close>

text \<open>
  Claim C4, as the spec states it: a title line whose text is the stored title leaves
  the whole context unchanged but for the timestamp. The title handler sets the screen
  mode from the title text every time, so the mode changes where it was not the one the
  title gives: in the initial state, whose title is empty, and after a timeout followed
  by a content line from which another mode was detected.
\<close>

theorem unchanged_title_rederives_mode:
  "screen_title (ctx (OsdParser_init 5)) = clean_osd_text []
   \<and> screen_mode (ctx (OsdParser_init 5)) = None
   \<and> screen_mode (ctx (snd (parse 1 1 (OsdParser_init 5) ''NSE0''))) = Some MODE_MENU
   \<and> screen_title (ctx (snd (parse 10 10 (snd (parse 1 1 (OsdParser_init 5) ''NSE0Setup Menu''))
                                (''NSE1'' @ [CHR 0x01] @ ''Song A''))))
     = clean_osd_text ''Setup Menu''
   \<and> screen_mode (ctx (snd (parse 10 10 (snd (parse 1 1 (OsdParser_init 5) ''NSE0Setup Menu''))
                               (''NSE1'' @ [CHR 0x01] @ ''Song A''))))
     = Some MODE_NOW_PLAYING
   \<and> screen_mode (ctx (snd (parse 11 11
        (snd (parse 10 10 (snd (parse 1 1 (OsdParser_init 5) ''NSE0Setup Menu''))
                (''NSE1'' @ [CHR 0x01] @ ''Song A'')))
        ''NSE0Setup Menu''))) = Some MODE_MENU"
  by code_simp

text \<open>
  Claim C4, amended: a title line whose cleaned text is the stored title gives the one
  event \<^verbatim>\<open>osd_title_update\<close> and leaves the title, the cursor line, the menu items and
  the pending fragment as they were; the timestamp advances and the screen mode is set
  to the mode the title text gives. A title line whose text differs resets the context
  and clears the pending fragment.
\<close>

theorem title_line_frame:
  "(clean_osd_text raw_text = screen_title (ctx p) \<longrightarrow>
      parse t1 t2 p (''NSE0'' @ raw_text)
      = (Some (''osd_title_update'', [(''text'', VStr (screen_title (ctx p)))]),
         p\<lparr>ctx := (ctx p)
              \<lparr>screen_mode :=
                 Some (if lower (screen_title (ctx p)) = ''now playing'' then MODE_NOW_PLAYING
                       else if screen_title (ctx p) = ''Menu'' then MODE_CONTEXT_MENU
                       else MODE_MENU),
               last_update_time := t2\<rparr>\<rparr>))
   \<and> (clean_osd_text raw_text \<noteq> screen_title (ctx p) \<longrightarrow>
      parse t1 t2 p (''NSE0'' @ raw_text)
      = (Some (''osd_title_update'', [(''text'', VStr (clean_osd_text raw_text))]),
         \<lparr>context_timeout = context_timeout p,
          ctx = \<lparr>screen_mode =
                   Some (if lower (clean_osd_text raw_text) = ''now playing'' then MODE_NOW_PLAYING
                         else if clean_osd_text raw_text = ''Menu'' then MODE_CONTEXT_MENU
                         else MODE_MENU),
                 last_update_time = t2, screen_title = clean_osd_text raw_text,
                 cursor_line = - 1, menu_items = []\<rparr>,
          pending_selected_line = None\<rparr>))"
  unfolding parse_title_line
  by (cases p)
     (auto simp: handle_title_line_def reset_context_if_timed_out_def create_default_context_def Let_def)

theorem title_line_frame_witness:
  "clean_osd_text ''Setup Menu'' = screen_title (ctx (snd (parse 1 1 (OsdParser_init 5) ''NSE0Setup Menu'')))
   \<and> snd (parse 2 3 (snd (parse 1 1 (OsdParser_init 5) ''NSE0Setup Menu'')) ''NSE0Setup Menu'')
     = (snd (parse 1 1 (OsdParser_init 5) ''NSE0Setup Menu''))
         \<lparr>ctx := (ctx (snd (parse 1 1 (OsdParser_init 5) ''NSE0Setup Menu'')))\<lparr>last_update_time := 3\<rparr>\<rparr>
   \<and> clean_osd_text ''Now Playing'' \<noteq> screen_title (ctx (snd (parse 1 1 (OsdParser_init 5) ''NSE0Setup Menu'')))
   \<and> screen_mode (ctx (snd (parse 2 3 (snd (parse 1 1 (OsdParser_init 5) ''NSE0Setup Menu'')) ''NSE0Now Playing'')))
     = Some MODE_NOW_PLAYING"
proof -
  let ?p = "snd (parse 1 1 (OsdParser_init 5) ''NSE0Setup Menu'')"
  have a: "clean_osd_text ''Setup Menu'' = screen_title (ctx ?p)"
    by code_simp
  have m: "screen_mode (ctx ?p) = Some MODE_MENU"
    by code_simp
  have b: "clean_osd_text ''Now Playing'' \<noteq> screen_title (ctx ?p)"
    by code_simp
  have s: "screen_title (ctx ?p) = ''Setup Menu''"
    by code_simp
  have c: "snd (parse 2 3 ?p (''NSE0'' @ ''Setup Menu''))
           = ?p\<lparr>ctx := (ctx ?p)\<lparr>screen_mode := Some MODE_MENU, last_update_time := 3\<rparr>\<rparr>"
    using title_line_frame [of "''Setup Menu''" ?p 2 3] a
    by (simp add: s clean_titles)
  have c': "?p\<lparr>ctx := (ctx ?p)\<lparr>screen_mode := Some MODE_MENU, last_update_time := 3\<rparr>\<rparr>
            = ?p\<lparr>ctx := (ctx ?p)\<lparr>last_update_time := 3\<rparr>\<rparr>"
    using m by (cases ?p, cases "ctx ?p") auto
  have d: "screen_mode (ctx (snd (parse 2 3 ?p (''NSE0'' @ ''Now Playing'')))) = Some MODE_NOW_PLAYING"
    using title_line_frame [of "''Now Playing''" ?p 2 3] b
    by (simp add: clean_titles)
  show ?thesis
    using a b c c' d by simp
qed

section \<open>The OSD parser: the inactivity timeout\<close>



end
